theory Spec2Isabelle
  imports Main "HOL-Library.Word" "HOL-Library.AList"
begin

section \<open>Python values, errors and byte strings\<close>

text \<open>
  The module \<open>pymqi/mq_pcf.py\<close> builds and parses PCF messages. Its objects are
  dynamically typed, so the values held in structure members are modelled by one datatype.
  The model follows Python 3, where text and bytes are different types: \<open>PyText\<close> is
  \<open>str\<close> (a sequence of code points), \<open>PyBytes\<close> is \<open>bytes\<close>; \<open>PyOther\<close>
  stands for any value of another type (a float, \<open>None\<close>, ...). Every exception the
  code can raise is a value of \<open>pyerror\<close>, and a function that can raise returns a
  sum with the error on the left.
\<close>

type_synonym byte = "8 word"

datatype pyval =
    PyInt int
  | PyBytes "byte list"
  | PyText "nat list"
  | PyList "pyval list"
  | PyTuple "pyval list"
  | PyOther

datatype pyif_msg =
    UnsupportedParameterType pyval
  | ConvertedLengthMismatch nat int
  | TupleLengthZero
  | UnknownParameterType
  | UnknownParameterClass
  | StructureListEmpty

datatype pyerror =
    StructError
  | TypeError
  | AttributeError
  | IndexError
  | CodecError
  | PYIFError pyif_msg
  | MQMIError int

text \<open>Python slicing \<open>xs[a:b]\<close>: a negative index counts from the end, both are clipped.\<close>

definition norm_index :: "nat \<Rightarrow> int \<Rightarrow> nat" where
  "norm_index n i = (if i < 0 then nat (max 0 (int n + i)) else min n (nat i))"

definition py_slice :: "'a list \<Rightarrow> int \<Rightarrow> int \<Rightarrow> 'a list" where
  "py_slice xs a b =
     (let s = norm_index (length xs) a; e = norm_index (length xs) b
      in take (e - s) (drop s xs))"

definition slice_to :: "'a list \<Rightarrow> int \<Rightarrow> 'a list" where
  "slice_to xs b = py_slice xs 0 b"

definition slice_from :: "'a list \<Rightarrow> int \<Rightarrow> 'a list" where
  "slice_from xs a = py_slice xs a (int (length xs))"

section \<open>The struct module on the formats the module builds\<close>

text \<open>
  A format string of the module is a sequence of three kinds of items: the big-endian
  mark (the character greater-than, \<open>BigEndianTok\<close>), the four-byte signed integer
  \<open>i\<close> (\<open>MQLONG_TYPE\<close>, \<open>LongTok\<close>) and a byte field \<open>%is\<close> of a given count
  (\<open>CharsTok\<close>). The mark is accepted as the first character only; without it the
  integers are in native order, which is little-endian, and since every integer precedes
  the byte field no alignment padding occurs. A negative count is no format.
\<close>

datatype fmt = BigEndianTok | LongTok | CharsTok int

fun valid_item :: "fmt \<Rightarrow> bool" where
  "valid_item BigEndianTok = False"
| "valid_item LongTok = True"
| "valid_item (CharsTok n) = (0 \<le> n)"

fun fmt_items :: "fmt list \<Rightarrow> (bool \<times> fmt list) option" where
  "fmt_items (BigEndianTok # fs) = (if list_all valid_item fs then Some (True, fs) else None)"
| "fmt_items fs = (if list_all valid_item fs then Some (False, fs) else None)"

fun item_size :: "fmt \<Rightarrow> nat" where
  "item_size BigEndianTok = 0"
| "item_size LongTok = 4"
| "item_size (CharsTok n) = nat n"

definition calcsize :: "fmt list \<Rightarrow> nat" where
  "calcsize fs = sum_list (map item_size fs)"

definition pack_long :: "bool \<Rightarrow> int \<Rightarrow> byte list" where
  "pack_long big v =
     (let bs = [word_of_int v, word_of_int (v div 256), word_of_int (v div 65536),
                word_of_int (v div 16777216)]
      in if big then rev bs else bs)"

definition unpack_long :: "bool \<Rightarrow> byte list \<Rightarrow> int" where
  "unpack_long big buf =
     (let bs = (if big then rev buf else buf);
          u = uint (bs ! 0) + 256 * uint (bs ! 1) + 65536 * uint (bs ! 2)
              + 16777216 * uint (bs ! 3)
      in if u < 2147483648 then u else u - 4294967296)"

fun pack_item :: "bool \<Rightarrow> fmt \<Rightarrow> pyval \<Rightarrow> pyerror + byte list" where
  "pack_item big LongTok (PyInt v) =
     (if - 2147483648 \<le> v \<and> v < 2147483648 then Inr (pack_long big v) else Inl StructError)"
| "pack_item big (CharsTok n) (PyBytes bs) =
     Inr (take (nat n) bs @ replicate (nat n - length bs) 0)"
| "pack_item big f v = Inl StructError"

fun pack_items :: "bool \<Rightarrow> fmt list \<Rightarrow> pyval list \<Rightarrow> pyerror + byte list" where
  "pack_items big [] [] = Inr []"
| "pack_items big (f # fs) (v # vs) =
     (case pack_item big f v of
        Inl e \<Rightarrow> Inl e
      | Inr b \<Rightarrow> (case pack_items big fs vs of Inl e \<Rightarrow> Inl e | Inr bs \<Rightarrow> Inr (b @ bs)))"
| "pack_items big fs vs = Inl StructError"

definition struct_pack :: "fmt list \<Rightarrow> pyval list \<Rightarrow> pyerror + byte list" where
  "struct_pack fs vs =
     (case fmt_items fs of None \<Rightarrow> Inl StructError | Some (big, items) \<Rightarrow> pack_items big items vs)"

fun unpack_items :: "bool \<Rightarrow> fmt list \<Rightarrow> byte list \<Rightarrow> pyval list" where
  "unpack_items big [] buf = []"
| "unpack_items big (LongTok # fs) buf =
     PyInt (unpack_long big (take 4 buf)) # unpack_items big fs (drop 4 buf)"
| "unpack_items big (CharsTok n # fs) buf =
     PyBytes (take (nat n) buf) # unpack_items big fs (drop (nat n) buf)"
| "unpack_items big (BigEndianTok # fs) buf = unpack_items big fs buf"

definition struct_unpack :: "fmt list \<Rightarrow> byte list \<Rightarrow> pyerror + pyval list" where
  "struct_unpack fs buf =
     (case fmt_items fs of
        None \<Rightarrow> Inl StructError
      | Some (big, items) \<Rightarrow>
          if length buf = calcsize items then Inr (unpack_items big items buf)
          else Inl StructError)"

section \<open>The base class MQOpts\<close>

text \<open>
  Modelled from the spec: \<open>pymqi.MQOpts\<close>, the base class of every structure, is not
  part of the module. It keeps the member list (name, default value, format), the
  concatenated format and one instance attribute per member; \<open>pack\<close> serialises the
  attributes in member order with the format, \<open>unpack\<close> reads them back with
  \<open>struct.unpack\<close> (which raises unless the buffer has the size of the format), \<open>get\<close>
  returns the attributes of the members as a dictionary, \<open>set\<close> and \<open>obj[key] = v\<close>
  assign to an attribute that exists. The two lists \<open>integer_list\<close> and
  \<open>string_list\<close> are the instance attributes of the list structures.
\<close>

type_synonym member = "string \<times> pyval \<times> fmt list"

record mqopts =
  mq_list :: "member list"
  mq_format :: "fmt list"
  mq_attrs :: "(string \<times> pyval) list"
  integer_list :: "pyval list"
  string_list :: "pyval list"

definition blank :: mqopts where
  "blank = \<lparr>mq_list = [], mq_format = [], mq_attrs = [], integer_list = [], string_list = []\<rparr>"

definition hasattr :: "mqopts \<Rightarrow> string \<Rightarrow> bool" where
  "hasattr self key = (map_of (mq_attrs self) key \<noteq> None)"

definition getitem :: "mqopts \<Rightarrow> string \<Rightarrow> pyerror + pyval" where
  "getitem self key =
     (case map_of (mq_attrs self) key of None \<Rightarrow> Inl AttributeError | Some v \<Rightarrow> Inr v)"

definition setattr :: "mqopts \<Rightarrow> string \<Rightarrow> pyval \<Rightarrow> mqopts" where
  "setattr self key v = self\<lparr>mq_attrs := AList.update key v (mq_attrs self)\<rparr>"

definition setitem :: "mqopts \<Rightarrow> string \<Rightarrow> pyval \<Rightarrow> pyerror + mqopts" where
  "setitem self key v =
     (case getitem self key of Inl e \<Rightarrow> Inl e | Inr old \<Rightarrow> Inr (setattr self key v))"

definition getint :: "mqopts \<Rightarrow> string \<Rightarrow> pyerror + int" where
  "getint self key =
     (case getitem self key of
        Inl e \<Rightarrow> Inl e
      | Inr (PyInt i) \<Rightarrow> Inr i
      | Inr other \<Rightarrow> Inl TypeError)"

fun MQOpts_set :: "mqopts \<Rightarrow> (string \<times> pyval) list \<Rightarrow> pyerror + mqopts" where
  "MQOpts_set self [] = Inr self"
| "MQOpts_set self ((k, v) # kw) =
     (case getitem self k of Inl e \<Rightarrow> Inl e | Inr old \<Rightarrow> MQOpts_set (setattr self k v) kw)"

definition MQOpts_init :: "mqopts \<Rightarrow> member list \<Rightarrow> mqopts" where
  "MQOpts_init self memlist =
     fold (\<lambda>(n, v, f) s. setattr s n v) memlist
       (self\<lparr>mq_list := memlist, mq_format := concat (map (\<lambda>(n, v, f). f) memlist)\<rparr>)"

fun get_from :: "mqopts \<Rightarrow> member list \<Rightarrow> (string \<times> pyval) list
    \<Rightarrow> pyerror + (string \<times> pyval) list" where
  "get_from self [] d = Inr d"
| "get_from self ((n, dflt, f) # ms) d =
     (case getitem self n of Inl e \<Rightarrow> Inl e | Inr v \<Rightarrow> get_from self ms (AList.update n v d))"

definition MQOpts_get :: "mqopts \<Rightarrow> pyerror + (string \<times> pyval) list" where
  "MQOpts_get self = get_from self (mq_list self) []"

fun pack_args :: "mqopts \<Rightarrow> member list \<Rightarrow> pyerror + pyval list" where
  "pack_args self [] = Inr []"
| "pack_args self ((n, dflt, f) # ms) =
     (case getitem self n of
        Inl e \<Rightarrow> Inl e
      | Inr v \<Rightarrow> (case pack_args self ms of Inl e \<Rightarrow> Inl e | Inr vs \<Rightarrow> Inr (v # vs)))"

definition MQOpts_pack :: "mqopts \<Rightarrow> pyerror + byte list" where
  "MQOpts_pack self =
     (case pack_args self (mq_list self) of
        Inl e \<Rightarrow> Inl e
      | Inr vs \<Rightarrow> struct_pack (mq_format self) vs)"

definition MQOpts_unpack :: "mqopts \<Rightarrow> byte list \<Rightarrow> pyerror + mqopts" where
  "MQOpts_unpack self buff =
     (case struct_unpack (mq_format self) buff of
        Inl e \<Rightarrow> Inl e
      | Inr r \<Rightarrow> Inr (fold (\<lambda>((n, dflt, f), v) s. setattr s n v) (zip (mq_list self) r) self))"

text \<open>
  The idiom the module repeats after changing the member list: save the values, run
  \<open>MQOpts.__init__\<close> on the new list, set the saved values again.
\<close>

definition reinit :: "mqopts \<Rightarrow> member list \<Rightarrow> pyerror + mqopts" where
  "reinit self new_opts =
     (case MQOpts_get self of
        Inl e \<Rightarrow> Inl e
      | Inr saved_values \<Rightarrow> MQOpts_set (MQOpts_init self new_opts) saved_values)"

definition bind_err :: "pyerror + 'a \<Rightarrow> ('a \<Rightarrow> pyerror + 'b) \<Rightarrow> pyerror + 'b" where
  "bind_err m f = (case m of Inl e \<Rightarrow> Inl e | Inr x \<Rightarrow> f x)"

fun py_len :: "pyval \<Rightarrow> pyerror + nat" where
  "py_len (PyBytes bs) = Inr (length bs)"
| "py_len (PyText cs) = Inr (length cs)"
| "py_len (PyList vs) = Inr (length vs)"
| "py_len (PyTuple vs) = Inr (length vs)"
| "py_len v = Inl TypeError"

section \<open>Constants of the PCF interface\<close>

text \<open>
  Modelled from the spec: the constants of \<open>pymqi.CMQC\<close> and \<open>pymqi.CMQCFC\<close> are
  not part of the module. The type tags and control values are those of the PCF
  interface; each fixed structure length is four bytes for every member the class
  declares; the big-endian encodings are the values the module's comments give.
\<close>

abbreviation (input) MQCFT_COMMAND :: int where "MQCFT_COMMAND \<equiv> 1"
abbreviation (input) MQCFT_RESPONSE :: int where "MQCFT_RESPONSE \<equiv> 2"
abbreviation (input) MQCFT_INTEGER :: int where "MQCFT_INTEGER \<equiv> 3"
abbreviation (input) MQCFT_STRING :: int where "MQCFT_STRING \<equiv> 4"
abbreviation (input) MQCFT_INTEGER_LIST :: int where "MQCFT_INTEGER_LIST \<equiv> 5"
abbreviation (input) MQCFT_STRING_LIST :: int where "MQCFT_STRING_LIST \<equiv> 6"
abbreviation (input) MQCFT_BYTE_STRING :: int where "MQCFT_BYTE_STRING \<equiv> 9"
abbreviation (input) MQCFT_COMMAND_XR :: int where "MQCFT_COMMAND_XR \<equiv> 16"
abbreviation (input) MQCFT_XR_MSG :: int where "MQCFT_XR_MSG \<equiv> 17"
abbreviation (input) MQCFT_XR_ITEM :: int where "MQCFT_XR_ITEM \<equiv> 18"
abbreviation (input) MQCFT_XR_SUMMARY :: int where "MQCFT_XR_SUMMARY \<equiv> 19"

abbreviation (input) MQCFH_STRUC_LENGTH :: int where "MQCFH_STRUC_LENGTH \<equiv> 36"
abbreviation (input) MQCFH_CURRENT_VERSION :: int where "MQCFH_CURRENT_VERSION \<equiv> 3"
abbreviation (input) MQCFH_VERSION_3 :: int where "MQCFH_VERSION_3 \<equiv> 3"
abbreviation (input) MQCFIN_STRUC_LENGTH :: int where "MQCFIN_STRUC_LENGTH \<equiv> 16"
abbreviation (input) MQCFST_STRUC_LENGTH_FIXED :: int where "MQCFST_STRUC_LENGTH_FIXED \<equiv> 20"
abbreviation (input) MQCFIL_STRUC_LENGTH_FIXED :: int where "MQCFIL_STRUC_LENGTH_FIXED \<equiv> 16"
abbreviation (input) MQCFSL_STRUC_LENGTH_FIXED :: int where "MQCFSL_STRUC_LENGTH_FIXED \<equiv> 24"
abbreviation (input) MQCFBS_STRUC_LENGTH_FIXED :: int where "MQCFBS_STRUC_LENGTH_FIXED \<equiv> 16"

abbreviation (input) MQCMD_NONE :: int where "MQCMD_NONE \<equiv> 0"
abbreviation (input) MQCFC_LAST :: int where "MQCFC_LAST \<equiv> 1"
abbreviation (input) MQCC_OK :: int where "MQCC_OK \<equiv> 0"
abbreviation (input) MQRC_NONE :: int where "MQRC_NONE \<equiv> 0"
abbreviation (input) MQCCSI_DEFAULT :: int where "MQCCSI_DEFAULT \<equiv> 0"
abbreviation (input) MQENC_NATIVE :: int where "MQENC_NATIVE \<equiv> 546"
abbreviation (input) MQRC_NO_MSG_AVAILABLE :: int where "MQRC_NO_MSG_AVAILABLE \<equiv> 2033"

definition big_endian_encodings :: "int list" where
  "big_endian_encodings = [1, 16, 256, 768, 17, 257, 272, 273, 785]"

definition is_big :: "int option \<Rightarrow> bool" where
  "is_big encoding = (case encoding of None \<Rightarrow> False | Some e \<Rightarrow> e \<in> set big_endian_encodings)"

section \<open>MQOptsWithEncoding and the structures\<close>

text \<open>
  \<open>self._MQOpts__list[0][2] = mark + self._MQOpts__list[0][2]\<close>: the format of the
  first member gets the big-endian mark in front.
\<close>

definition mark_first :: "mqopts \<Rightarrow> pyerror + mqopts" where
  "mark_first self =
     (case mq_list self of
        [] \<Rightarrow> Inl IndexError
      | (n, v, f) # ms \<Rightarrow> Inr (self\<lparr>mq_list := (n, v, BigEndianTok # f) # ms\<rparr>))"

definition mark_if_big :: "mqopts \<Rightarrow> int option \<Rightarrow> pyerror + mqopts" where
  "mark_if_big self encoding = (if is_big encoding then mark_first self else Inr self)"

definition MQOptsWithEncoding_pack :: "mqopts \<Rightarrow> int option \<Rightarrow> pyerror + byte list \<times> mqopts" where
  "MQOptsWithEncoding_pack self encoding =
     bind_err
       (if is_big encoding
        then bind_err (mark_first self) (\<lambda>s. reinit s (mq_list s))
        else Inr self)
       (\<lambda>s. bind_err (MQOpts_pack s) (\<lambda>bs. Inr (bs, s)))"

definition MQOptsWithEncoding_unpack :: "mqopts \<Rightarrow> byte list \<Rightarrow> int option \<Rightarrow> pyerror + mqopts" where
  "MQOptsWithEncoding_unpack self buff encoding =
     bind_err (mark_if_big self encoding)
       (\<lambda>s. MQOpts_unpack (MQOpts_init s (mq_list s)) buff)"

definition CFH :: mqopts where
  "CFH = MQOpts_init blank
     [(''Type'', PyInt MQCFT_COMMAND, [LongTok]),
      (''StrucLength'', PyInt MQCFH_STRUC_LENGTH, [LongTok]),
      (''Version'', PyInt MQCFH_CURRENT_VERSION, [LongTok]),
      (''Command'', PyInt MQCMD_NONE, [LongTok]),
      (''MsgSeqNumber'', PyInt 1, [LongTok]),
      (''Control'', PyInt MQCFC_LAST, [LongTok]),
      (''CompCode'', PyInt MQCC_OK, [LongTok]),
      (''Reason'', PyInt MQRC_NONE, [LongTok]),
      (''ParameterCount'', PyInt 0, [LongTok])]"

definition CFBS :: mqopts where
  "CFBS = MQOpts_init blank
     [(''Type'', PyInt MQCFT_BYTE_STRING, [LongTok]),
      (''StrucLength'', PyInt MQCFBS_STRUC_LENGTH_FIXED, [LongTok]),
      (''Parameter'', PyInt 0, [LongTok]),
      (''StringLength'', PyInt 0, [LongTok])]"

definition CFIN :: mqopts where
  "CFIN = MQOpts_init blank
     [(''Type'', PyInt MQCFT_INTEGER, [LongTok]),
      (''StrucLength'', PyInt MQCFIN_STRUC_LENGTH, [LongTok]),
      (''Parameter'', PyInt 0, [LongTok]),
      (''Value'', PyInt 0, [LongTok])]"

definition CFIL :: mqopts where
  "CFIL = MQOpts_init blank
     [(''Type'', PyInt MQCFT_INTEGER_LIST, [LongTok]),
      (''StrucLength'', PyInt MQCFIL_STRUC_LENGTH_FIXED, [LongTok]),
      (''Parameter'', PyInt 0, [LongTok]),
      (''Count'', PyInt 0, [LongTok])]"

definition CFST :: mqopts where
  "CFST = MQOpts_init blank
     [(''Type'', PyInt MQCFT_STRING, [LongTok]),
      (''StrucLength'', PyInt MQCFST_STRUC_LENGTH_FIXED, [LongTok]),
      (''Parameter'', PyInt 0, [LongTok]),
      (''CodedCharSetId'', PyInt MQCCSI_DEFAULT, [LongTok]),
      (''StringLength'', PyInt 0, [LongTok])]"

definition CFSL :: mqopts where
  "CFSL = MQOpts_init blank
     [(''Type'', PyInt MQCFT_STRING_LIST, [LongTok]),
      (''StrucLength'', PyInt MQCFSL_STRUC_LENGTH_FIXED, [LongTok]),
      (''Parameter'', PyInt 0, [LongTok]),
      (''CodedCharSetId'', PyInt MQCCSI_DEFAULT, [LongTok]),
      (''Count'', PyInt 0, [LongTok]),
      (''StringLength'', PyInt 0, [LongTok])]"

text \<open>
  The step shared by the \<open>unpack\<close> methods of the variable-length structures: mark the
  format when the encoding is big-endian, run \<open>MQOpts.__init__\<close> on the member list and
  unpack the fixed part \<open>buff[:fixed]\<close>.
\<close>

definition unpack_fixed :: "mqopts \<Rightarrow> byte list \<Rightarrow> int option \<Rightarrow> int \<Rightarrow> pyerror + mqopts" where
  "unpack_fixed self buff encoding fixed =
     bind_err (mark_if_big self encoding)
       (\<lambda>s. MQOpts_unpack (MQOpts_init s (mq_list s)) (slice_to buff fixed))"

definition fix_struc_length :: "mqopts \<Rightarrow> int \<Rightarrow> nat \<Rightarrow> pyerror + mqopts" where
  "fix_struc_length self fixed n =
     bind_err (getitem self ''StrucLength'')
       (\<lambda>l. if l = PyInt fixed \<or> l = PyInt 0
            then setitem self ''StrucLength'' (PyInt (fixed + int n))
            else Inr self)"

definition CFBS_unpack :: "mqopts \<Rightarrow> byte list \<Rightarrow> int option \<Rightarrow> pyerror + mqopts" where
  "CFBS_unpack self buff encoding =
     bind_err (unpack_fixed self buff encoding MQCFBS_STRUC_LENGTH_FIXED) (\<lambda>s1.
     bind_err (getitem s1 ''StringLength'') (\<lambda>sl.
     bind_err
       (if sl = PyInt 0
        then bind_err
               (setitem s1 ''StringLength''
                  (PyInt (int (length (slice_from buff MQCFBS_STRUC_LENGTH_FIXED)))))
               (\<lambda>s. Inr (slice_from buff MQCFBS_STRUC_LENGTH_FIXED, s))
        else bind_err (getint s1 ''StringLength'')
               (\<lambda>n. Inr (py_slice buff MQCFBS_STRUC_LENGTH_FIXED
                            (MQCFBS_STRUC_LENGTH_FIXED + n), s1)))
       (\<lambda>(string_value, s2).
     bind_err
       (setitem s2 ''StrucLength''
          (PyInt (MQCFBS_STRUC_LENGTH_FIXED + int (length string_value))))
       (\<lambda>s3. reinit s3
          (mq_list s3 @
           [(''String'', PyBytes string_value, [CharsTok (int (length string_value))])])))))"

text \<open>
  The packing of \<open>integer_list\<close> in \<open>add_integer\<close>: with the big-endian mark when the
  encoding is big-endian and the first member format is not marked yet, in native order
  otherwise.
\<close>

definition pack_integer_list :: "mqopts \<Rightarrow> int option \<Rightarrow> pyerror + byte list" where
  "pack_integer_list self encoding =
     (let format_str = replicate (length (integer_list self)) LongTok in
      if is_big encoding
      then (case mq_list self of
              [] \<Rightarrow> Inl IndexError
            | (n, d, f) # ms \<Rightarrow>
                if f \<noteq> [] \<and> hd f = BigEndianTok
                then struct_pack format_str (integer_list self)
                else struct_pack (BigEndianTok # format_str) (integer_list self))
      else struct_pack format_str (integer_list self))"

definition CFIL_add_integer :: "mqopts \<Rightarrow> pyval \<Rightarrow> int option \<Rightarrow> pyerror + mqopts" where
  "CFIL_add_integer self0 v encoding =
     (let self = self0\<lparr>integer_list := integer_list self0 @ [v]\<rparr> in
      bind_err (getint self ''Count'') (\<lambda>c.
      bind_err (setitem self ''Count'' (PyInt (c + 1))) (\<lambda>s1.
      bind_err (getint s1 ''Count'') (\<lambda>c1.
      bind_err (setitem s1 ''StrucLength'' (PyInt (MQCFIL_STRUC_LENGTH_FIXED + 4 * c1))) (\<lambda>s2.
      bind_err (pack_integer_list s2 encoding) (\<lambda>string_value.
        let m = (''IntegerList'', PyBytes string_value,
                 [CharsTok (int (length string_value))]) in
        if hasattr s2 ''IntegerList''
        then bind_err (setitem s2 ''IntegerList'' (PyBytes string_value))
               (\<lambda>s3. reinit s3 (butlast (mq_list s3) @ [m]))
        else reinit s2 (mq_list s2 @ [m])))))))"

fun unpack_ints :: "nat \<Rightarrow> byte list \<Rightarrow> pyval list \<Rightarrow> pyerror + pyval list" where
  "unpack_ints 0 int_buf acc = Inr acc"
| "unpack_ints (Suc k) int_buf acc =
     (case struct_unpack [LongTok] (slice_to int_buf 4) of
        Inl e \<Rightarrow> Inl e
      | Inr r \<Rightarrow> unpack_ints k (slice_from int_buf 4) (acc @ [PyTuple r]))"

definition CFIL_unpack :: "mqopts \<Rightarrow> byte list \<Rightarrow> int option \<Rightarrow> pyerror + mqopts" where
  "CFIL_unpack self buff encoding =
     bind_err (unpack_fixed self buff encoding MQCFIL_STRUC_LENGTH_FIXED) (\<lambda>s1.
     let string_value = slice_from buff MQCFIL_STRUC_LENGTH_FIXED;
         new_opts = mq_list s1 @
           [(''IntegerList'', PyBytes string_value, [CharsTok (int (length string_value))])] in
     bind_err (fix_struc_length s1 MQCFST_STRUC_LENGTH_FIXED (length string_value)) (\<lambda>s2.
     bind_err (getint s2 ''Count'') (\<lambda>c.
     bind_err (unpack_ints (nat c) string_value (integer_list s2)) (\<lambda>il.
     reinit (s2\<lparr>integer_list := il\<rparr>) new_opts))))"

definition CFST_set_string :: "mqopts \<Rightarrow> pyval \<Rightarrow> pyerror + mqopts" where
  "CFST_set_string self string_value =
     bind_err (py_len string_value) (\<lambda>n.
     bind_err (setitem self ''StringLength'' (PyInt (int n))) (\<lambda>s1.
     bind_err (getint s1 ''StringLength'') (\<lambda>sl.
     let new_opts = mq_list s1 @ [(''String'', string_value, [CharsTok sl])] in
     bind_err (fix_struc_length s1 MQCFST_STRUC_LENGTH_FIXED n) (\<lambda>s2.
     reinit s2 new_opts))))"

text \<open>
  \<open>CFST.unpack\<close> and \<open>CFSL.unpack\<close> have the same body up to the fixed length and the
  name of the payload member.
\<close>

definition unpack_string :: "mqopts \<Rightarrow> byte list \<Rightarrow> int option \<Rightarrow> int \<Rightarrow> string
    \<Rightarrow> pyerror + mqopts" where
  "unpack_string self buff encoding fixed name =
     bind_err (unpack_fixed self buff encoding fixed) (\<lambda>s1.
     bind_err (getitem s1 ''StringLength'') (\<lambda>sl.
     bind_err
       (if sl = PyInt 0
        then bind_err
               (setitem s1 ''StringLength'' (PyInt (int (length (slice_from buff fixed)))))
               (\<lambda>s. Inr (slice_from buff fixed, s))
        else bind_err (getint s1 ''StringLength'')
               (\<lambda>n. Inr (py_slice buff fixed (fixed + n), s1)))
       (\<lambda>(string_value, s2).
     bind_err (getint s2 ''StringLength'') (\<lambda>sl2.
     let new_opts = mq_list s2 @ [(name, PyBytes string_value, [CharsTok sl2])] in
     bind_err (fix_struc_length s2 fixed (length string_value)) (\<lambda>s3.
     reinit s3 new_opts)))))"

definition CFST_unpack :: "mqopts \<Rightarrow> byte list \<Rightarrow> int option \<Rightarrow> pyerror + mqopts" where
  "CFST_unpack self buff encoding =
     unpack_string self buff encoding MQCFST_STRUC_LENGTH_FIXED ''String''"

definition CFSL_unpack :: "mqopts \<Rightarrow> byte list \<Rightarrow> int option \<Rightarrow> pyerror + mqopts" where
  "CFSL_unpack self buff encoding =
     unpack_string self buff encoding MQCFSL_STRUC_LENGTH_FIXED ''StringList''"

text \<open>
  \<open>CFSL.add_string\<close>. In the loop over \<open>string_list\<close>, the padding expression
  \<open>s + " " * self["StringLength"] - len(s)\<close> subtracts an integer from a string and
  the truncating expression \<open>s[:self["StringLength" - 1]]\<close> subtracts an integer from
  the key: both raise \<open>TypeError\<close>. The accumulator starts as the text \<open>""\<close>.
\<close>

fun py_add :: "pyval \<Rightarrow> pyval \<Rightarrow> pyerror + pyval" where
  "py_add (PyText a) (PyText b) = Inr (PyText (a @ b))"
| "py_add (PyBytes a) (PyBytes b) = Inr (PyBytes (a @ b))"
| "py_add (PyInt a) (PyInt b) = Inr (PyInt (a + b))"
| "py_add (PyList a) (PyList b) = Inr (PyList (a @ b))"
| "py_add (PyTuple a) (PyTuple b) = Inr (PyTuple (a @ b))"
| "py_add a b = Inl TypeError"

fun join_slots :: "int \<Rightarrow> pyval list \<Rightarrow> pyval \<Rightarrow> pyerror + pyval" where
  "join_slots sl [] string_value = Inr string_value"
| "join_slots sl (s # ss) string_value =
     bind_err (py_len s) (\<lambda>n.
       if int n < sl then Inl TypeError
       else if int n > sl then Inl TypeError
       else bind_err (py_add string_value s) (\<lambda>sv. join_slots sl ss sv))"

definition CFSL_add_string :: "mqopts \<Rightarrow> pyval \<Rightarrow> pyerror + mqopts" where
  "CFSL_add_string self0 v =
     (let self = self0\<lparr>string_list := string_list self0 @ [v]\<rparr> in
      bind_err (getitem self ''StringLength'') (\<lambda>sl0.
      bind_err
        (if sl0 = PyInt 0
         then bind_err (py_len v) (\<lambda>n. setitem self ''StringLength'' (PyInt (int n)))
         else Inr self) (\<lambda>s1.
      bind_err (getint s1 ''Count'') (\<lambda>c.
      bind_err (setitem s1 ''Count'' (PyInt (c + 1))) (\<lambda>s2.
      bind_err (getint s2 ''StringLength'') (\<lambda>sl.
      bind_err (getint s2 ''Count'') (\<lambda>c2.
      bind_err (setitem s2 ''StrucLength'' (PyInt (MQCFSL_STRUC_LENGTH_FIXED + sl * c2))) (\<lambda>s3.
      bind_err (join_slots sl (string_list s3) (PyText [])) (\<lambda>string_value.
      bind_err (py_len string_value) (\<lambda>n.
      let m = (''StringList'', string_value, [CharsTok (int n)]) in
      if hasattr s3 ''StringList''
      then bind_err (setitem s3 ''StringList'' string_value)
             (\<lambda>s4. reinit s4 (butlast (mq_list s4) @ [m]))
      else reinit s3 (mq_list s3 @ [m])))))))))))"

section \<open>PCFCommandResponse\<close>

type_synonym pydict = "(pyval \<times> pyval) list"

record response =
  struct_list :: "mqopts list list"
  headers :: "mqopts list"
  header :: "mqopts option"
  parms :: "pydict list"

definition is_header_type :: "pyval \<Rightarrow> bool" where
  "is_header_type parm_type =
     (parm_type = PyInt MQCFT_RESPONSE \<or> parm_type = PyInt MQCFT_XR_ITEM
      \<or> parm_type = PyInt MQCFT_XR_MSG \<or> parm_type = PyInt MQCFT_XR_SUMMARY)"

definition value_member :: "pyval \<Rightarrow> string option" where
  "value_member parm_type =
     (if parm_type = PyInt MQCFT_INTEGER then Some ''Value''
      else if parm_type = PyInt MQCFT_STRING then Some ''String''
      else if parm_type = PyInt MQCFT_INTEGER_LIST then Some ''IntegerList''
      else if parm_type = PyInt MQCFT_STRING_LIST then Some ''StringList''
      else if parm_type = PyInt MQCFT_BYTE_STRING then Some ''String''
      else None)"

text \<open>
  The inner loop of \<open>PCFCommandResponse.__init__\<close> over the structures of one bag. The
  state is the headers list, the canonical header and the dictionary of the bag.
\<close>

fun classify :: "mqopts list \<Rightarrow> mqopts list \<times> mqopts option \<times> pydict
    \<Rightarrow> pyerror + mqopts list \<times> mqopts option \<times> pydict" where
  "classify [] st = Inr st"
| "classify (pcf_st # rest) (hs, h, pcf_dict) =
     bind_err (getitem pcf_st ''Type'') (\<lambda>parm_type.
       if is_header_type parm_type
       then (let hs' = hs @ [pcf_st];
                 h' = (if h = None then Some pcf_st else h)
             in if parm_type = PyInt MQCFT_XR_SUMMARY then Inr (hs', h', pcf_dict)
                else classify rest (hs', h', pcf_dict))
       else (case value_member parm_type of
               None \<Rightarrow> Inl (PYIFError (UnsupportedParameterType parm_type))
             | Some m \<Rightarrow>
                 bind_err (getitem pcf_st ''Parameter'') (\<lambda>k.
                 bind_err (getitem pcf_st m) (\<lambda>v.
                 classify rest (hs, h, AList.update k v pcf_dict)))))"

fun classify_bags :: "mqopts list list \<Rightarrow> mqopts list \<times> mqopts option \<times> pydict list
    \<Rightarrow> pyerror + mqopts list \<times> mqopts option \<times> pydict list" where
  "classify_bags [] st = Inr st"
| "classify_bags (pcf_s # bags) (hs, h, ps) =
     bind_err (classify pcf_s (hs, h, [])) (\<lambda>(hs', h', pcf_dict).
       classify_bags bags (hs', h', if length pcf_dict > 0 then ps @ [pcf_dict] else ps))"

definition PCFCommandResponse :: "mqopts list list \<Rightarrow> pyerror + response" where
  "PCFCommandResponse sl =
     (if length sl > 0
      then bind_err (classify_bags sl ([], None, [])) (\<lambda>(hs, h, ps).
             Inr \<lparr>struct_list = sl, headers = hs, header = h, parms = ps\<rparr>)
      else Inl (PYIFError StructureListEmpty))"

definition reason_code :: "response \<Rightarrow> pyerror + pyval option" where
  "reason_code r =
     (case header r of None \<Rightarrow> Inr None
      | Some h \<Rightarrow> bind_err (getitem h ''Reason'') (\<lambda>v. Inr (Some v)))"

definition comp_code :: "response \<Rightarrow> pyerror + pyval option" where
  "comp_code r =
     (case header r of None \<Rightarrow> Inr None
      | Some h \<Rightarrow> bind_err (getitem h ''CompCode'') (\<lambda>v. Inr (Some v)))"

section \<open>PCFCommand\<close>

text \<open>
  The fields of a \<open>PCFCommand\<close> the methods read. The codec named by \<open>ccsid_str\<close>
  belongs to the Python runtime and is a parameter: \<open>codec_encode\<close> is
  \<open>str.encode(ccsid_str)\<close> and \<open>codec_decode\<close> is \<open>bytes.decode(ccsid_str)\<close>.
\<close>

record pcf_command =
  ccsid :: int
  encoding :: int
  convert :: bool
  codec_encode :: "nat list \<Rightarrow> pyerror + byte list"
  codec_decode :: "byte list \<Rightarrow> pyerror + nat list"

definition py_encode :: "pcf_command \<Rightarrow> pyval \<Rightarrow> pyerror + pyval" where
  "py_encode self v =
     (case v of
        PyText cs \<Rightarrow> bind_err (codec_encode self cs) (\<lambda>bs. Inr (PyBytes bs))
      | other \<Rightarrow> Inl AttributeError)"

definition py_decode :: "pcf_command \<Rightarrow> pyval \<Rightarrow> pyerror + pyval" where
  "py_decode self v =
     (case v of
        PyBytes bs \<Rightarrow> bind_err (codec_decode self bs) (\<lambda>cs. Inr (PyText cs))
      | other \<Rightarrow> Inl AttributeError)"

subsection \<open>unpack_bag\<close>

definition long_format :: "pcf_command \<Rightarrow> fmt list" where
  "long_format self =
     (if encoding self \<in> set big_endian_encodings then [BigEndianTok, LongTok] else [LongTok])"

definition read_long :: "pcf_command \<Rightarrow> byte list \<Rightarrow> pyerror + int" where
  "read_long self bs =
     bind_err (struct_unpack (long_format self) bs)
       (\<lambda>r. case r of PyInt i # rest \<Rightarrow> Inr i | other \<Rightarrow> Inl IndexError)"

text \<open>
  The check after the conversion of a string payload: the converted text replaces the
  member, and its length is compared with the expected length.
\<close>

definition convert_member :: "pcf_command \<Rightarrow> mqopts \<Rightarrow> string \<Rightarrow> (mqopts \<Rightarrow> pyerror + int)
    \<Rightarrow> pyerror + mqopts" where
  "convert_member self resp name expected =
     bind_err (getitem resp name) (\<lambda>raw.
     bind_err (py_decode self raw) (\<lambda>txt.
     bind_err (setitem resp name txt) (\<lambda>resp'.
     bind_err (getitem resp' name) (\<lambda>v.
     bind_err (py_len v) (\<lambda>n.
     bind_err (expected resp') (\<lambda>ex.
       if int n \<noteq> ex then Inl (PYIFError (ConvertedLengthMismatch n ex))
       else Inr resp'))))))"

text \<open>
  The dispatch on the type tag: the structure that is appended to \<open>pcf_structs\<close> and
  the name of the member whose value the branch stores in \<open>pcf_dict\<close>.
\<close>

definition decode_struct :: "pcf_command \<Rightarrow> bool \<Rightarrow> int \<Rightarrow> byte list
    \<Rightarrow> pyerror + mqopts \<times> string" where
  "decode_struct self conv parm_type buff =
     (if parm_type = MQCFT_INTEGER
      then bind_err (MQOptsWithEncoding_unpack CFIN buff (Some (encoding self)))
             (\<lambda>resp_cfin. Inr (resp_cfin, ''Value''))
      else if parm_type = MQCFT_STRING
      then bind_err (CFST_unpack CFST buff (Some (encoding self))) (\<lambda>resp_cfst.
           bind_err
             (if conv
              then convert_member self resp_cfst ''String''
                     (\<lambda>r. getint r ''StringLength'')
              else Inr resp_cfst)
             (\<lambda>r. Inr (r, ''String'')))
      else if parm_type = MQCFT_INTEGER_LIST
      then bind_err (CFIL_unpack CFIL buff (Some (encoding self)))
             (\<lambda>resp_cfil. Inr (resp_cfil, ''IntegerList''))
      else if parm_type = MQCFT_STRING_LIST
      then bind_err (CFSL_unpack CFSL buff (Some (encoding self))) (\<lambda>resp_cfsl.
           bind_err
             (if conv
              then convert_member self resp_cfsl ''StringList''
                     (\<lambda>r. bind_err (getint r ''StringLength'') (\<lambda>sl.
                           bind_err (getint r ''Count'') (\<lambda>c. Inr (sl * c))))
              else Inr resp_cfsl)
             (\<lambda>r. Inr (r, ''StringList'')))
      else if parm_type = MQCFT_BYTE_STRING
      then bind_err (CFBS_unpack CFBS buff (Some (encoding self)))
             (\<lambda>resp_cfbs. Inr (resp_cfbs, ''String''))
      else Inl (PYIFError (UnsupportedParameterType (PyInt parm_type))))"

text \<open>
  One iteration of the \<open>while not done\<close> loop of \<open>unpack_bag\<close>. \<open>decode_at\<close> is
  what the iteration reads at the cursor: the declared length, the key and the value it
  stores in \<open>pcf_dict\<close>, and the structure it appends to \<open>pcf_structs\<close>.
\<close>

definition decode_at :: "pcf_command \<Rightarrow> bool \<Rightarrow> byte list
    \<Rightarrow> pyerror + int \<times> pyval \<times> pyval \<times> mqopts" where
  "decode_at self conv new_buff =
     bind_err (read_long self (slice_to new_buff 4)) (\<lambda>parm_type.
     bind_err (read_long self (py_slice new_buff 4 8)) (\<lambda>struc_len.
     bind_err (decode_struct self conv parm_type (slice_to new_buff struc_len)) (\<lambda>(resp, m).
     bind_err (getitem resp ''Parameter'') (\<lambda>k.
     bind_err (getitem resp m) (\<lambda>v.
       Inr (struc_len, k, v, resp))))))"

definition unpack_step :: "pcf_command \<Rightarrow> bool \<Rightarrow> byte list \<Rightarrow> pydict \<Rightarrow> mqopts list
    \<Rightarrow> pyerror + byte list \<times> pydict \<times> mqopts list" where
  "unpack_step self conv new_buff pcf_dict pcf_structs =
     bind_err (decode_at self conv new_buff) (\<lambda>(struc_len, k, v, resp).
       Inr (slice_from new_buff struc_len, AList.update k v pcf_dict, pcf_structs @ [resp]))"

partial_function (option) unpack_loop :: "pcf_command \<Rightarrow> bool \<Rightarrow> byte list \<Rightarrow> pydict
    \<Rightarrow> mqopts list \<Rightarrow> (pyerror + pydict \<times> mqopts list) option" where
  "unpack_loop self conv new_buff pcf_dict pcf_structs =
     (case unpack_step self conv new_buff pcf_dict pcf_structs of
        Inl e \<Rightarrow> Some (Inl e)
      | Inr (nb, d, ss) \<Rightarrow>
          if length nb = 0 then Some (Inr (d, ss)) else unpack_loop self conv nb d ss)"

declare unpack_loop.simps [code]

text \<open>
  \<open>unpack_bag\<close> returns Python's \<open>None\<close> for an empty buffer (the inner option) and
  otherwise the list of structures; the dictionary it fills is local and is dropped.
  \<open>unpack_dict\<close> exposes that local dictionary at the point of the return.
\<close>

definition unpack_state :: "pcf_command \<Rightarrow> byte list \<Rightarrow> bool
    \<Rightarrow> (pyerror + (pydict \<times> mqopts list) option) option" where
  "unpack_state self buff conv =
     (if length buff = 0 then Some (Inr None)
      else case MQOptsWithEncoding_unpack CFH (slice_to buff 36) (Some (encoding self)) of
             Inl e \<Rightarrow> Some (Inl e)
           | Inr resp_cfh \<Rightarrow>
               (let new_buff = slice_from buff 36 in
                if length new_buff = 0 then Some (Inr (Some ([], [resp_cfh])))
                else case unpack_loop self conv new_buff [] [resp_cfh] of
                       None \<Rightarrow> None
                     | Some (Inl e) \<Rightarrow> Some (Inl e)
                     | Some (Inr st) \<Rightarrow> Some (Inr (Some st))))"

definition unpack_bag :: "pcf_command \<Rightarrow> byte list \<Rightarrow> bool
    \<Rightarrow> (pyerror + mqopts list option) option" where
  "unpack_bag self buff conv =
     map_option (map_sum id (map_option snd)) (unpack_state self buff conv)"


subsection \<open>pack_bag\<close>

text \<open>
  An entry of \<open>parm_list\<close> is a dictionary, a tuple, an \<open>MQOpts\<close> instance or
  something else. The dictionary and the tuple branch build the structure in the same
  way, except that only the dictionary branch encodes strings when \<open>convert\<close> is set;
  \<open>build_parameter\<close> is that common part and returns \<open>None\<close> where the source leaves
  \<open>cf_p = None\<close>.
\<close>

datatype parm = ParmDict pydict | ParmTuple "pyval list" | ParmOpts mqopts | ParmOther

fun is_int :: "pyval \<Rightarrow> bool" where
  "is_int (PyInt i) = True"
| "is_int v = False"

fun is_str :: "pyval \<Rightarrow> bool" where
  "is_str (PyText cs) = True"
| "is_str (PyBytes bs) = True"
| "is_str v = False"

fun add_integers :: "mqopts \<Rightarrow> pyval list \<Rightarrow> int option \<Rightarrow> pyerror + mqopts" where
  "add_integers cf_p [] enc = Inr cf_p"
| "add_integers cf_p (p # ps) enc =
     bind_err (CFIL_add_integer cf_p p enc) (\<lambda>c. add_integers c ps enc)"

fun add_strings :: "pcf_command \<Rightarrow> bool \<Rightarrow> mqopts \<Rightarrow> pyval list \<Rightarrow> pyerror + mqopts" where
  "add_strings self conv cf_p [] = Inr cf_p"
| "add_strings self conv cf_p (p # ps) =
     bind_err (if conv then py_encode self p else Inr p) (\<lambda>v.
     bind_err (CFSL_add_string cf_p v) (\<lambda>c. add_strings self conv c ps))"

definition build_parameter :: "pcf_command \<Rightarrow> bool \<Rightarrow> pyval \<Rightarrow> pyval
    \<Rightarrow> pyerror + mqopts option" where
  "build_parameter self conv parm parm_vals =
     (case parm_vals of
        PyList vs \<Rightarrow>
          (if length vs > 0
           then (if is_int (hd vs)
                 then bind_err (setitem CFIL ''Parameter'' parm) (\<lambda>c.
                      bind_err (add_integers c vs (Some (encoding self))) (\<lambda>c'. Inr (Some c')))
                 else if is_str (hd vs)
                 then bind_err (setitem CFSL ''CodedCharSetId'' (PyInt (ccsid self))) (\<lambda>c.
                      bind_err (setitem c ''Parameter'' parm) (\<lambda>c1.
                      bind_err (add_strings self conv c1 vs) (\<lambda>c'. Inr (Some c'))))
                 else Inl (PYIFError UnknownParameterType))
           else Inr None)
      | other \<Rightarrow>
          (if is_int parm_vals
           then bind_err (setitem CFIN ''Parameter'' parm) (\<lambda>c.
                bind_err (setitem c ''Value'' parm_vals) (\<lambda>c'. Inr (Some c')))
           else if is_str parm_vals
           then bind_err (setitem CFST ''CodedCharSetId'' (PyInt (ccsid self))) (\<lambda>c.
                bind_err (setitem c ''Parameter'' parm) (\<lambda>c1.
                bind_err (if conv then py_encode self parm_vals else Inr parm_vals) (\<lambda>v.
                bind_err (CFST_set_string c1 v) (\<lambda>c'. Inr (Some c')))))
           else Inl (PYIFError UnknownParameterType)))"

text \<open>\<open>out_buf = out_buf + cf_p.pack(encoding=self.encoding)\<close>, where \<open>cf_p\<close> may be \<open>None\<close>.\<close>

definition append_packed :: "pcf_command \<Rightarrow> byte list \<Rightarrow> mqopts option \<Rightarrow> pyerror + byte list" where
  "append_packed self out_buf cf_p =
     (case cf_p of
        None \<Rightarrow> Inl AttributeError
      | Some c \<Rightarrow>
          bind_err (MQOptsWithEncoding_pack c (Some (encoding self)))
            (\<lambda>(bs, c'). Inr (out_buf @ bs)))"

fun pack_parms :: "pcf_command \<Rightarrow> parm list \<Rightarrow> byte list \<Rightarrow> pyerror + byte list" where
  "pack_parms self [] out_buf = Inr out_buf"
| "pack_parms self (ParmDict d # rest) out_buf =
     (case d of
        [] \<Rightarrow> Inl (PYIFError TupleLengthZero)
      | (parm, parm_vals) # items \<Rightarrow>
          bind_err (build_parameter self (convert self) parm parm_vals) (\<lambda>cf_p.
          bind_err (append_packed self out_buf cf_p) (\<lambda>out. pack_parms self rest out)))"
| "pack_parms self (ParmTuple t # rest) out_buf =
     (case t of
        [] \<Rightarrow> Inl (PYIFError TupleLengthZero)
      | [parm] \<Rightarrow> Inl IndexError
      | parm # parm_vals # others \<Rightarrow>
          bind_err (build_parameter self False parm parm_vals) (\<lambda>cf_p.
          bind_err (append_packed self out_buf cf_p) (\<lambda>out. pack_parms self rest out)))"
| "pack_parms self (ParmOpts c # rest) out_buf = pack_parms self rest out_buf"
| "pack_parms self (ParmOther # rest) out_buf = Inl (PYIFError UnknownParameterClass)"

definition pack_bag :: "pcf_command \<Rightarrow> pyval \<Rightarrow> parm list \<Rightarrow> pyerror + byte list" where
  "pack_bag self command parm_list =
     bind_err (setitem CFH ''Type'' (PyInt MQCFT_COMMAND_XR)) (\<lambda>h1.
     bind_err (setitem h1 ''Command'' command) (\<lambda>h2.
     bind_err (setitem h2 ''Version'' (PyInt MQCFH_VERSION_3)) (\<lambda>h3.
     bind_err (setitem h3 ''ParameterCount'' (PyInt (int (length parm_list)))) (\<lambda>pcf_header.
     bind_err (MQOptsWithEncoding_pack pcf_header (Some (encoding self))) (\<lambda>(out_buf, h).
       pack_parms self parm_list out_buf)))))"

subsection \<open>execute_command\<close>

text \<open>
  The queue manager is outside the module. A run of \<open>execute_command\<close> sees it through
  the outcome of \<open>put1\<close> and the outcomes of the successive calls of \<open>get\<close> on the reply
  queue: a message (with the \<open>CodedCharSetId\<close> of its descriptor) or an \<open>MQMIError\<close>
  with a reason code. When the list of outcomes runs out while the loop is still
  receiving, the model has no result (\<open>None\<close>).
\<close>

datatype event = Message int "byte list" | Failure int

record transport =
  put1_failure :: "int option"
  replies :: "event list"

fun receive_loop :: "pcf_command \<Rightarrow> event list \<Rightarrow> mqopts list list
    \<Rightarrow> (pyerror + mqopts list list) option" where
  "receive_loop self [] out_structs = None"
| "receive_loop self (Failure reason # evs) out_structs =
     (if reason = MQRC_NO_MSG_AVAILABLE then Some (Inr out_structs)
      else Some (Inl (MQMIError reason)))"
| "receive_loop self (Message cc message_data # evs) out_structs =
     (case unpack_bag self message_data (if cc \<noteq> ccsid self then False else convert self) of
        None \<Rightarrow> None
      | Some (Inl e) \<Rightarrow> Some (Inl e)
      | Some (Inr None) \<Rightarrow> Some (Inl TypeError)
      | Some (Inr (Some rep_structs)) \<Rightarrow>
          (case rep_structs of
             [] \<Rightarrow> Some (Inl IndexError)
           | h # others \<Rightarrow>
               (case getitem h ''Control'' of
                  Inl e \<Rightarrow> Some (Inl e)
                | Inr c \<Rightarrow>
                    if c = PyInt MQCFC_LAST then Some (Inr (out_structs @ [rep_structs]))
                    else receive_loop self evs (out_structs @ [rep_structs]))))"

definition execute_command :: "pcf_command \<Rightarrow> transport \<Rightarrow> pyval \<Rightarrow> parm list
    \<Rightarrow> (pyerror + response) option" where
  "execute_command self tr command parm_list =
     (case pack_bag self command parm_list of
        Inl e \<Rightarrow> Some (Inl e)
      | Inr msg_body \<Rightarrow>
          (case put1_failure tr of
             Some reason \<Rightarrow> Some (Inl (MQMIError reason))
           | None \<Rightarrow>
               (case receive_loop self (replies tr) [] of
                  None \<Rightarrow> None
                | Some (Inl e) \<Rightarrow> Some (Inl e)
                | Some (Inr out_structs) \<Rightarrow> Some (PCFCommandResponse out_structs))))"

section \<open>Notions used to state the properties\<close>

subsection \<open>Bags as the response sees them\<close>










subsection \<open>Positions in a reply buffer\<close>

text \<open>
  The remaining buffer after \<open>k\<close> iterations of the loop of \<open>unpack_bag\<close> that leave
  bytes to parse: the position of the cursor in front of structure number \<open>k\<close>
  (counted from 0 after the header). \<open>entry_at\<close> is the key and the value that the
  loop stores for that structure.
\<close>

fun cursor_after :: "pcf_command \<Rightarrow> bool \<Rightarrow> nat \<Rightarrow> byte list \<Rightarrow> byte list option" where
  "cursor_after self conv 0 new_buff = Some new_buff"
| "cursor_after self conv (Suc k) new_buff =
     (case decode_at self conv new_buff of
        Inl e \<Rightarrow> None
      | Inr (struc_len, key, v, resp) \<Rightarrow>
          if length (slice_from new_buff struc_len) = 0 then None
          else cursor_after self conv k (slice_from new_buff struc_len))"


subsection \<open>Replies of the transport\<close>

text \<open>
  \<open>decodes_to self final ev bag\<close>: the outcome \<open>ev\<close> of \<open>get\<close> is a message that
  \<open>unpack_bag\<close> decodes into \<open>bag\<close>, and the header of \<open>bag\<close> carries
  \<open>Control = LAST\<close> exactly when \<open>final\<close> holds.
\<close>

definition reply_bag :: "pcf_command \<Rightarrow> event \<Rightarrow> (pyerror + mqopts list option) option" where
  "reply_bag self ev =
     (case ev of
        Failure reason \<Rightarrow> Some (Inl (MQMIError reason))
      | Message cc message_data \<Rightarrow>
          unpack_bag self message_data (if cc \<noteq> ccsid self then False else convert self))"

definition bag_control :: "mqopts list \<Rightarrow> pyerror + pyval" where
  "bag_control bag = (case bag of [] \<Rightarrow> Inl IndexError | h # others \<Rightarrow> getitem h ''Control'')"

definition decodes_to :: "pcf_command \<Rightarrow> bool \<Rightarrow> event \<Rightarrow> mqopts list \<Rightarrow> bool" where
  "decodes_to self final ev bag =
     (reply_bag self ev = Some (Inr (Some bag))
      \<and> (case bag_control bag of Inl e \<Rightarrow> False | Inr c \<Rightarrow> (c = PyInt MQCFC_LAST) = final))"

subsection \<open>Structures while they are built\<close>

text \<open>
  A member list whose first format is a single integer and whose other formats are valid
  items: the shape of the member list of every structure class.
\<close>

definition starts_long :: "mqopts \<Rightarrow> bool" where
  "starts_long self =
     (case mq_list self of
        [] \<Rightarrow> False
      | (n, d, f) # ms \<Rightarrow> f = [LongTok] \<and> list_all valid_item (concat (map (\<lambda>(n, v, f). f) ms)))"






subsection \<open>Sample inputs\<close>

definition native_cmd :: pcf_command where
  "native_cmd =
     \<lparr>ccsid = 819, encoding = MQENC_NATIVE, convert = False,
      codec_encode = (\<lambda>cs. if list_all (\<lambda>c. c < 256) cs then Inr (map of_nat cs)
                           else Inl CodecError),
      codec_decode = (\<lambda>bs. Inr (map unat bs))\<rparr>"

definition convert_cmd :: pcf_command where
  "convert_cmd = native_cmd\<lparr>convert := True\<rparr>"

definition longs :: "int list \<Rightarrow> byte list" where
  "longs vs = concat (map (pack_long False) vs)"

definition reply_header :: "int \<Rightarrow> int \<Rightarrow> byte list" where
  "reply_header ty control = longs [ty, 36, 3, 0, 1, control, 0, 0, 0]"

definition decoded :: "byte list \<Rightarrow> mqopts list" where
  "decoded message_data =
     (case unpack_bag native_cmd message_data False of
        Some (Inr (Some bag)) \<Rightarrow> bag
      | other \<Rightarrow> [])"



definition more_reply :: "byte list" where
  "more_reply = reply_header MQCFT_RESPONSE 0 @ longs [MQCFT_INTEGER, 16, 1, 10]"

definition last_reply :: "byte list" where
  "last_reply = reply_header MQCFT_RESPONSE MQCFC_LAST @ longs [MQCFT_INTEGER, 16, 3, 30]"

section \<open>Properties\<close>

subsection \<open>Auxiliary facts\<close>

lemma bind_err_Inr: "(bind_err m f = Inr r) = (\<exists>x. m = Inr x \<and> f x = Inr r)"
  by (cases m) (simp_all add: bind_err_def)

lemma bind_err_simps [simp]: "bind_err (Inl e) f = Inl e" "bind_err (Inr x) f = f x"
  by (simp_all add: bind_err_def)

lemma slice_advances: "slice_to xs n \<noteq> [] \<Longrightarrow> length (slice_from xs n) < length xs"
  by (auto simp: slice_to_def slice_from_def py_slice_def norm_index_def Let_def
      split: if_splits)

lemma MQOpts_unpack_nonempty:
  "MQOpts_unpack self buf = Inr r \<Longrightarrow> fmt_items (mq_format self) = Some (big, items)
    \<Longrightarrow> 0 < calcsize items \<Longrightarrow> buf \<noteq> []"
  by (auto simp: MQOpts_unpack_def bind_err_Inr struct_unpack_def split: sum.splits option.splits if_splits)

lemma fold_setattr_format:
  "mq_format (fold (\<lambda>(n, v, f) s. setattr s n v) ml t) = mq_format t"
  by (induction ml arbitrary: t) (auto simp: setattr_def)

lemma fold_setattr_list:
  "mq_list (fold (\<lambda>(n, v, f) s. setattr s n v) ml t) = mq_list t"
  by (induction ml arbitrary: t) (auto simp: setattr_def)

lemma mq_list_init [simp]: "mq_list (MQOpts_init s ml) = ml"
  by (simp add: MQOpts_init_def fold_setattr_list)

lemma unpack_fixed_nonempty:
  assumes "unpack_fixed self buff enc fixed = Inr r"
      and sl: "starts_long self"
  shows "buff \<noteq> []"
proof
  from sl obtain n d ms where l: "mq_list self = (n, d, [LongTok]) # ms"
    and v: "list_all valid_item (concat (map (\<lambda>(n, v, f). f) ms))"
    by (auto simp: starts_long_def split: list.splits)
  note assms = assms(1) l v
  assume e: "buff = []"
  from assms(1) obtain s where s: "mark_if_big self enc = Inr s"
    and u: "MQOpts_unpack (MQOpts_init s (mq_list s)) (slice_to buff fixed) = Inr r"
    by (auto simp: unpack_fixed_def bind_err_Inr)
  have fmt: "mq_format (MQOpts_init s (mq_list s)) = concat (map (\<lambda>(n, v, f). f) (mq_list s))"
    for s :: mqopts
    by (simp add: MQOpts_init_def fold_setattr_format)
  from s assms(2) have "mq_list s = (n, d, [LongTok]) # ms \<or> mq_list s = (n, d, [BigEndianTok, LongTok]) # ms"
    by (auto simp: mark_if_big_def mark_first_def split: if_splits)
  then have "\<exists>big. fmt_items (mq_format (MQOpts_init s (mq_list s)))
      = Some (big, LongTok # concat (map (\<lambda>(n, v, f). f) ms))"
    using assms(3) by (auto simp: fmt)
  then obtain big where "fmt_items (mq_format (MQOpts_init s (mq_list s)))
      = Some (big, LongTok # concat (map (\<lambda>(n, v, f). f) ms))" ..
  from MQOpts_unpack_nonempty[OF u this] have "slice_to buff fixed \<noteq> []"
    by (simp add: calcsize_def)
  with e show False by (simp add: slice_to_def py_slice_def)
qed

lemma MQOptsWithEncoding_unpack_eq:
  "MQOptsWithEncoding_unpack self buff enc = unpack_fixed self buff enc (int (length buff))"
  by (simp add: MQOptsWithEncoding_unpack_def unpack_fixed_def slice_to_def py_slice_def norm_index_def)

lemma starts_long_classes:
  "starts_long CFH" "starts_long CFIN" "starts_long CFST" "starts_long CFIL"
  "starts_long CFSL" "starts_long CFBS"
  by (simp_all add: starts_long_def CFH_def CFIN_def CFST_def CFIL_def CFSL_def CFBS_def)

lemma unpack_fixed_empty [simp]:
  "unpack_fixed CFIN [] enc fx \<noteq> Inr r"
  "unpack_fixed CFST [] enc fx \<noteq> Inr r"
  "unpack_fixed CFIL [] enc fx \<noteq> Inr r"
  "unpack_fixed CFSL [] enc fx \<noteq> Inr r"
  "unpack_fixed CFBS [] enc fx \<noteq> Inr r"
  using unpack_fixed_nonempty[of CFIN "[]" enc fx r] unpack_fixed_nonempty[of CFST "[]" enc fx r]
    unpack_fixed_nonempty[of CFIL "[]" enc fx r] unpack_fixed_nonempty[of CFSL "[]" enc fx r]
    unpack_fixed_nonempty[of CFBS "[]" enc fx r]
  by (auto simp: starts_long_classes)

lemma decode_struct_nonempty:
  assumes "decode_struct self conv t buff = Inr r"
  shows "buff \<noteq> []"
proof
  assume "buff = []"
  with assms show False
    unfolding decode_struct_def
    by (auto simp: bind_err_Inr MQOptsWithEncoding_unpack_eq CFST_unpack_def CFSL_unpack_def
          unpack_string_def CFIL_unpack_def CFBS_unpack_def Let_def
        split: if_splits)
qed

lemma decode_at_advances:
  assumes "decode_at self conv nb = Inr (sl, k, v, resp)"
  shows "length (slice_from nb sl) < length nb"
proof -
  from assms obtain t m where "decode_struct self conv t (slice_to nb sl) = Inr (resp, m)"
    by (auto simp: decode_at_def bind_err_Inr)
  then have "slice_to nb sl \<noteq> []" by (rule decode_struct_nonempty)
  then show ?thesis by (rule slice_advances)
qed



lemma length_slice_to: "0 \<le> n \<Longrightarrow> length (slice_to xs n) = min (length xs) (nat n)"
  by (simp add: slice_to_def py_slice_def norm_index_def)

lemma length_py_slice_4_8: "8 \<le> length xs \<Longrightarrow> length (py_slice xs 4 8) = 4"
  by (simp add: py_slice_def norm_index_def)

lemma read_long_4:
  "length bs = 4 \<Longrightarrow> read_long self bs = Inr (unpack_long (encoding self \<in> set big_endian_encodings) bs)"
  by (simp add: read_long_def long_format_def struct_unpack_def calcsize_def)

lemma unknown_tag_step:
  assumes len: "8 \<le> length nb"
      and tag: "read_long self (slice_to nb 4) = Inr t"
      and bad: "t \<notin> {MQCFT_INTEGER, MQCFT_STRING, MQCFT_INTEGER_LIST, MQCFT_STRING_LIST, MQCFT_BYTE_STRING}"
  shows "unpack_loop self conv nb d ss = Some (Inl (PYIFError (UnsupportedParameterType (PyInt t))))"
proof -
  from len obtain sl where "read_long self (py_slice nb 4 8) = Inr sl"
    using read_long_4[of "py_slice nb 4 8" self] by (simp add: length_py_slice_4_8)
  moreover from bad have "decode_struct self conv t b = Inl (PYIFError (UnsupportedParameterType (PyInt t)))" for b
    by (simp add: decode_struct_def)
  ultimately have "decode_at self conv nb = Inl (PYIFError (UnsupportedParameterType (PyInt t)))"
    using tag by (simp add: decode_at_def)
  then show ?thesis
    by (subst unpack_loop.simps) (simp add: unpack_step_def)
qed

lemma cursor_after_loop:
  "cursor_after self conv k nb0 = Some nb \<Longrightarrow>
     \<exists>d' ss'. unpack_loop self conv nb0 d ss = unpack_loop self conv nb d' ss'"
proof (induction k arbitrary: nb0 d ss)
  case 0
  then show ?case by auto
next
  case (Suc k)
  from Suc.prems obtain sl key v resp where da: "decode_at self conv nb0 = Inr (sl, key, v, resp)"
    and ne: "length (slice_from nb0 sl) \<noteq> 0"
    and ca: "cursor_after self conv k (slice_from nb0 sl) = Some nb"
    by (auto split: sum.splits if_splits)
  from da ne have "unpack_loop self conv nb0 d ss
      = unpack_loop self conv (slice_from nb0 sl) (AList.update key v d) (ss @ [resp])"
    by (subst unpack_loop.simps) (simp add: unpack_step_def)
  with Suc.IH[OF ca] show ?case by metis
qed

lemma cursor_after_nonempty:
  "cursor_after self conv k nb0 = Some nb \<Longrightarrow> nb \<noteq> [] \<Longrightarrow> nb0 \<noteq> []"
proof (cases k)
  case 0
  assume "cursor_after self conv k nb0 = Some nb" "nb \<noteq> []"
  with 0 show ?thesis by simp
next
  case (Suc j)
  assume "cursor_after self conv k nb0 = Some nb"
  with Suc obtain x where "decode_at self conv nb0 = Inr x"
    by (auto split: sum.splits)
  then show ?thesis using decode_at_advances[of self conv nb0] by (cases x) auto
qed

lemma header_unpacks:
  assumes "36 \<le> length buff"
  shows "\<exists>h. MQOptsWithEncoding_unpack CFH (slice_to buff 36) enc = Inr h"
proof -
  have l: "length (slice_to buff 36) = 36" using assms by (simp add: length_slice_to)
  show ?thesis
    by (cases "is_big enc")
       (simp_all add: MQOptsWithEncoding_unpack_def mark_if_big_def mark_first_def CFH_def
          MQOpts_unpack_def MQOpts_init_def fold_setattr_format struct_unpack_def calcsize_def l
          setattr_def blank_def)
qed

lemma slice_from_nonempty: "slice_from xs 36 \<noteq> [] \<Longrightarrow> 36 \<le> length xs"
  by (auto simp: slice_from_def py_slice_def norm_index_def split: if_splits)








lemma receive_loop_step:
  assumes "decodes_to self final ev bag"
  shows "receive_loop self (ev # rest) out
       = (if final then Some (Inr (out @ [bag])) else receive_loop self rest (out @ [bag]))"
proof -
  from assms obtain cc message_data where ev: "ev = Message cc message_data"
    by (cases ev) (auto simp: decodes_to_def reply_bag_def)
  from assms ev have u: "unpack_bag self message_data (if cc \<noteq> ccsid self then False else convert self)
      = Some (Inr (Some bag))"
    by (simp add: decodes_to_def reply_bag_def)
  from assms obtain h others c where bag: "bag = h # others" and c: "getitem h ''Control'' = Inr c"
    and f: "(c = PyInt MQCFC_LAST) = final"
    by (cases bag) (auto simp: decodes_to_def bag_control_def split: sum.splits)
  show ?thesis
    unfolding ev using u bag c f by auto
qed

lemma receive_loop_prefix:
  "list_all2 (decodes_to self False) pre bags \<Longrightarrow>
     receive_loop self (pre @ rest) out = receive_loop self rest (out @ bags)"
proof (induction pre bags arbitrary: out rule: list_all2_induct)
  case Nil
  then show ?case by simp
next
  case (Cons ev pre bag bags)
  from receive_loop_step[OF Cons.hyps(1), of "pre @ rest" out] Cons.IH[of "out @ [bag]"]
  show ?case by simp
qed




lemma list_all_replicate_long [simp]: "list_all valid_item (replicate n LongTok)"
  by (induction n) auto




























subsection \<open>Round trip of the structures\<close>

text \<open>
  C1. The claim: unpacking the bytes produced by packing a structure gives the structure
  back, for every variant and both byte orders. On an integer list with the single value
  7, packed and unpacked in native order, \<open>CFIL.unpack\<close> compares \<open>StrucLength\<close> with
  \<open>MQCFST_STRUC_LENGTH_FIXED\<close> (20, the length of a one-element list) and rewrites it
  to 24, and it stores the integers as one-element tuples: the unpacked structure
  differs from the packed one.
\<close>

theorem CFIL_round_trip_differs:
  "bind_err (CFIL_add_integer CFIL (PyInt 7) (Some MQENC_NATIVE)) (\<lambda>x.
   bind_err (MQOptsWithEncoding_pack x (Some MQENC_NATIVE)) (\<lambda>(bs, x').
   bind_err (CFIL_unpack CFIL bs (Some MQENC_NATIVE)) (\<lambda>y.
     Inr (getitem x' ''StrucLength'', getitem y ''StrucLength'',
          integer_list x', integer_list y))))
   = Inr (Inr (PyInt 20), Inr (PyInt 24), [PyInt 7], [PyTuple [PyInt 7]])"
  by code_simp

subsection \<open>Conversion of string payloads\<close>

text \<open>
  C6. The claim: with conversion enabled, a string or string list whose converted
  length equals the declared length decodes to the converted text. A string list with
  \<open>Count = 2\<close> and \<open>StringLength = 3\<close> carries six bytes, which the one-to-one codec
  converts to six characters; \<open>CFSL.unpack\<close> keeps only the first \<open>StringLength\<close>
  bytes, so the check against \<open>StringLength * Count\<close> compares 3 with 6 and raises.
\<close>

theorem string_list_conversion_mismatch:
  "unpack_bag convert_cmd
     (reply_header MQCFT_RESPONSE MQCFC_LAST @ longs [MQCFT_STRING_LIST, 30, 7, 819, 2, 3]
        @ [65, 66, 67, 68, 69, 70]) True
   = Some (Inl (PYIFError (ConvertedLengthMismatch 3 6)))"
  by code_simp

subsection \<open>Slots of a string list\<close>

text \<open>
  C7. The claim: \<open>add_string\<close> pads a value shorter than the slot with spaces and
  truncates a longer one. After a first value of three characters, adding a value of one
  character and adding a value of four characters both raise \<open>TypeError\<close>.
\<close>

theorem add_string_pad_truncate_TypeError:
  "bind_err (CFSL_add_string CFSL (PyText [97, 98, 99])) (\<lambda>s. CFSL_add_string s (PyText [97]))
     = Inl TypeError
   \<and> bind_err (CFSL_add_string CFSL (PyText [97, 98, 99]))
        (\<lambda>s. CFSL_add_string s (PyText [97, 98, 99, 100])) = Inl TypeError"
  by code_simp

subsection \<open>Errors of pack_bag\<close>

text \<open>
  C9. The claim: a value that is none of the four shapes, an empty list included, makes
  \<open>pack_bag\<close> fail with the invalid-parameter-type error. For an empty list the source
  leaves \<open>cf_p = None\<close> and the call \<open>cf_p.pack\<close> raises \<open>AttributeError\<close>.
\<close>

theorem empty_list_value_AttributeError:
  "pack_bag native_cmd (PyInt 13) [ParmTuple [PyInt 1002, PyList []]] = Inl AttributeError
   \<and> pack_bag native_cmd (PyInt 13) [ParmDict [(PyInt 1002, PyList [])]] = Inl AttributeError"
  by code_simp

subsection \<open>Unknown type tags\<close>

text \<open>
  C4. The claim: an unsupported type tag at any position after the header makes decoding
  raise the unsupported-structure-type error. When fewer than eight bytes remain at the
  position, the read of the length field raises the error of \<open>struct.unpack\<close> before
  the tag is looked at: a header followed by the four bytes of the tag 99.
\<close>

theorem short_tail_struct_error:
  "unpack_bag native_cmd (reply_header MQCFT_RESPONSE MQCFC_LAST @ longs [99]) False
   = Some (Inl StructError)"
  by code_simp

text \<open>
  C4, as amended. When the cursor of \<open>unpack_bag\<close> stands, after any number of decoded
  structures, at a position where at least eight bytes remain and the tag read in the
  active byte order is none of the five supported ones, \<open>unpack_bag\<close> raises the
  unsupported-parameter-type error with that tag: no list of structures is returned.
\<close>

theorem unknown_tag_aborts:
  assumes cur: "cursor_after self conv k (slice_from buff 36) = Some nb"
      and len: "8 \<le> length nb"
      and tag: "read_long self (slice_to nb 4) = Inr t"
      and bad: "t \<notin> {MQCFT_INTEGER, MQCFT_STRING, MQCFT_INTEGER_LIST, MQCFT_STRING_LIST, MQCFT_BYTE_STRING}"
  shows "unpack_bag self buff conv = Some (Inl (PYIFError (UnsupportedParameterType (PyInt t))))"
proof -
  from len have "nb \<noteq> []" by auto
  with cur have ne: "slice_from buff 36 \<noteq> []" by (rule cursor_after_nonempty)
  then have l36: "36 \<le> length buff" by (rule slice_from_nonempty)
  then have b: "buff \<noteq> []" by auto
  from l36 obtain h where h: "MQOptsWithEncoding_unpack CFH (slice_to buff 36) (Some (encoding self)) = Inr h"
    using header_unpacks[of buff "Some (encoding self)"] by auto
  from cursor_after_loop[OF cur, of "[]" "[h]"] unknown_tag_step[OF len tag bad]
  have "unpack_loop self conv (slice_from buff 36) [] [h]
      = Some (Inl (PYIFError (UnsupportedParameterType (PyInt t))))" by auto
  with h b ne show ?thesis
    by (simp add: unpack_bag_def unpack_state_def Let_def)
qed

theorem unknown_tag_aborts_witness:
  "unpack_bag native_cmd
     (reply_header MQCFT_RESPONSE MQCFC_LAST @ longs [MQCFT_INTEGER, 16, 7, 42] @ longs [99, 8])
     False = Some (Inl (PYIFError (UnsupportedParameterType (PyInt 99))))"
proof -
  let ?buff = "reply_header MQCFT_RESPONSE MQCFC_LAST @ longs [MQCFT_INTEGER, 16, 7, 42] @ longs [99, 8]"
  have 1: "cursor_after native_cmd False 1 (slice_from ?buff 36) = Some (longs [99, 8])"
    by code_simp
  have 2: "8 \<le> length (longs [99, 8])" by code_simp
  have 3: "read_long native_cmd (slice_to (longs [99, 8]) 4) = Inr 99" by code_simp
  have 4: "(99::int) \<notin> {MQCFT_INTEGER, MQCFT_STRING, MQCFT_INTEGER_LIST, MQCFT_STRING_LIST, MQCFT_BYTE_STRING}"
    by simp
  show ?thesis by (rule unknown_tag_aborts[OF 1 2 3 4])
qed

subsection \<open>Termination of unpack_bag\<close>



subsection \<open>The response aggregate\<close>




subsection \<open>Duplicate parameter ids\<close>



subsection \<open>The receive loop of execute_command\<close>

text \<open>
  C3. The claim: when the transport reports that no message is available (reason 2033),
  the command completes normally with the replies accumulated so far. When that report
  is the first outcome, nothing has been accumulated and \<open>PCFCommandResponse\<close> raises
  the error for an empty structure list.
\<close>

theorem empty_batch_fails:
  "execute_command native_cmd \<lparr>put1_failure = None, replies = [Failure MQRC_NO_MSG_AVAILABLE]\<rparr>
     (PyInt 2) [] = Some (Inl (PYIFError StructureListEmpty))"
  by code_simp

text \<open>
  C3, as amended. Let the request be packed and put, and let the first outcomes of
  \<open>get\<close> be replies that decode into the bags \<open>bags\<close>, none with
  \<open>Control = LAST\<close>. If the next outcome is a reply that decodes into a bag with
  \<open>Control = LAST\<close>, the loop stops there and the response is built from \<open>bags\<close>
  followed by that bag, whatever the transport would deliver afterwards. If the next
  outcome is the error with reason 2033, the loop stops and the response is built from
  exactly \<open>bags\<close> (which raises when \<open>bags\<close> is empty). If it is an error with
  another reason, that error is raised.
\<close>

theorem receive_loop_ends:
  assumes pack: "pack_bag self command parm_list = Inr msg_body"
      and put: "put1_failure tr = None"
      and pre: "list_all2 (decodes_to self False) pre bags"
  shows "(replies tr = pre @ ev # rest \<and> decodes_to self True ev bag \<longrightarrow>
            execute_command self tr command parm_list = Some (PCFCommandResponse (bags @ [bag])))
       \<and> (replies tr = pre @ Failure MQRC_NO_MSG_AVAILABLE # rest \<longrightarrow>
            execute_command self tr command parm_list = Some (PCFCommandResponse bags))
       \<and> (replies tr = pre @ Failure reason # rest \<and> reason \<noteq> MQRC_NO_MSG_AVAILABLE \<longrightarrow>
            execute_command self tr command parm_list = Some (Inl (MQMIError reason)))"
proof (intro conjI impI)
  assume "replies tr = pre @ ev # rest \<and> decodes_to self True ev bag"
  then have "receive_loop self (replies tr) [] = Some (Inr (bags @ [bag]))"
    using receive_loop_prefix[OF pre, of "ev # rest" "[]"] receive_loop_step[of self True ev bag rest bags]
    by simp
  then show "execute_command self tr command parm_list = Some (PCFCommandResponse (bags @ [bag]))"
    by (simp add: execute_command_def pack put)
next
  assume "replies tr = pre @ Failure MQRC_NO_MSG_AVAILABLE # rest"
  then have "receive_loop self (replies tr) [] = Some (Inr bags)"
    using receive_loop_prefix[OF pre, of "Failure MQRC_NO_MSG_AVAILABLE # rest" "[]"] by simp
  then show "execute_command self tr command parm_list = Some (PCFCommandResponse bags)"
    by (simp add: execute_command_def pack put)
next
  assume "replies tr = pre @ Failure reason # rest \<and> reason \<noteq> MQRC_NO_MSG_AVAILABLE"
  then have "receive_loop self (replies tr) [] = Some (Inl (MQMIError reason))"
    using receive_loop_prefix[OF pre, of "Failure reason # rest" "[]"] by simp
  then show "execute_command self tr command parm_list = Some (Inl (MQMIError reason))"
    by (simp add: execute_command_def pack put)
qed

theorem receive_loop_ends_witness:
  "execute_command native_cmd
     \<lparr>put1_failure = None,
      replies = [Message 819 more_reply, Message 819 last_reply, Message 819 more_reply]\<rparr>
     (PyInt 2) [] = Some (PCFCommandResponse [decoded more_reply, decoded last_reply])
   \<and> execute_command native_cmd
     \<lparr>put1_failure = None,
      replies = [Message 819 more_reply, Failure MQRC_NO_MSG_AVAILABLE]\<rparr>
     (PyInt 2) [] = Some (PCFCommandResponse [decoded more_reply])
   \<and> execute_command native_cmd
     \<lparr>put1_failure = None, replies = [Message 819 more_reply, Failure 2009]\<rparr>
     (PyInt 2) [] = Some (Inl (MQMIError 2009))"
proof -
  have pack: "pack_bag native_cmd (PyInt 2) [] = Inr (longs [MQCFT_COMMAND_XR, 36, 3, 2, 1, 1, 0, 0, 0])"
    by code_simp
  have pre: "list_all2 (decodes_to native_cmd False) [Message 819 more_reply] [decoded more_reply]"
    by code_simp
  have fin: "decodes_to native_cmd True (Message 819 last_reply) (decoded last_reply)"
    by code_simp
  have ne: "(2009::int) \<noteq> MQRC_NO_MSG_AVAILABLE" by simp
  note t = receive_loop_ends[OF pack _ pre]
  have a: "execute_command native_cmd
     \<lparr>put1_failure = None,
      replies = [Message 819 more_reply, Message 819 last_reply, Message 819 more_reply]\<rparr>
     (PyInt 2) [] = Some (PCFCommandResponse [decoded more_reply, decoded last_reply])"
    using t[where tr = "\<lparr>put1_failure = None,
      replies = [Message 819 more_reply, Message 819 last_reply, Message 819 more_reply]\<rparr>"
      and ev = "Message 819 last_reply" and rest = "[Message 819 more_reply]"
      and bag = "decoded last_reply"] fin
    by simp
  have b: "execute_command native_cmd
     \<lparr>put1_failure = None,
      replies = [Message 819 more_reply, Failure MQRC_NO_MSG_AVAILABLE]\<rparr>
     (PyInt 2) [] = Some (PCFCommandResponse [decoded more_reply])"
    using t[where tr = "\<lparr>put1_failure = None,
      replies = [Message 819 more_reply, Failure MQRC_NO_MSG_AVAILABLE]\<rparr>" and rest = "[]"]
    by simp
  have c: "execute_command native_cmd
     \<lparr>put1_failure = None, replies = [Message 819 more_reply, Failure 2009]\<rparr>
     (PyInt 2) [] = Some (Inl (MQMIError 2009))"
    using t[where tr = "\<lparr>put1_failure = None,
      replies = [Message 819 more_reply, Failure 2009]\<rparr>" and rest = "[]" and reason = 2009]
    by simp
  from a b c show ?thesis by simp
qed

subsection \<open>StrucLength after encoding\<close>




end
